theory Spec2Isabelle
  imports Main
begin

section \<open>Errors and JavaScript idioms\<close>

text \<open>
  The service raises through \<^verbatim>\<open>NcError.notFound(msg)\<close>,
  \<^verbatim>\<open>NcError.unprocessableEntity(msg)\<close> and \<^verbatim>\<open>throw new Error(msg)\<close>; every
  collaborator call may raise as well. An exception is the left injection of a sum.
  The last three constructors are the remaining errors of the taxonomy of section 7 of
  the specification; only collaborators raise them.
\<close>

datatype error =
    NotFound string
  | UnprocessableEntity string
  | PlainError string
  | ConnectivityFailure
  | OffsetOutOfRange
  | MissingPrimaryKey

fun isNotFound :: "error + 'a \<Rightarrow> bool" where
  "isNotFound (Inl (NotFound msg)) = True"
| "isNotFound other = False"

text \<open>
  JavaScript truthiness of an optional string (\<^verbatim>\<open>param.viewId\<close>, \<^verbatim>\<open>param.projectId\<close>,
  \<^verbatim>\<open>view.fk_model_id\<close>): \<^verbatim>\<open>undefined\<close>, \<^verbatim>\<open>null\<close> and the empty string are falsy.
\<close>

definition truthy :: "string option \<Rightarrow> bool" where
  "truthy v = (case v of None \<Rightarrow> False | Some s \<Rightarrow> s \<noteq> [])"

text \<open>
  A request body is \<^verbatim>\<open>any\<close>; the service only asks \<^verbatim>\<open>Array.isArray(param.body)\<close>.
  \<open>Arr\<close> is an array of records, \<open>Obj\<close> is anything else.
\<close>

datatype 'r body = Obj 'r | Arr "'r list"

definition isArray :: "'r body \<Rightarrow> bool" where
  "isArray b = (case b of Arr xs \<Rightarrow> True | Obj x \<Rightarrow> False)"

text \<open>\<^verbatim>\<open>Array.isArray(param.body) ? param.body : [param.body]\<close>\<close>

definition batch :: "'r body \<Rightarrow> 'r list" where
  "batch b = (case b of Arr xs \<Rightarrow> xs | Obj x \<Rightarrow> [x])"

text \<open>
  What a mutation returns: one record, an array of records, or \<^verbatim>\<open>undefined\<close>
  (\<^verbatim>\<open>res[0]\<close> of an empty array is \<^verbatim>\<open>undefined\<close> in JavaScript, not an error).
\<close>

datatype 'r response = Single 'r | Many "'r list" | Undefined

definition index0 :: "'r list \<Rightarrow> 'r response" where
  "index0 res = (case res of [] \<Rightarrow> Undefined | r # rest \<Rightarrow> Single r)"

definition isMany :: "'r response \<Rightarrow> bool" where
  "isMany r = (case r of Many xs \<Rightarrow> True | Single x \<Rightarrow> False | Undefined \<Rightarrow> False)"

definition isSingle :: "'r response \<Rightarrow> bool" where
  "isSingle r = (case r of Single x \<Rightarrow> True | Many xs \<Rightarrow> False | Undefined \<Rightarrow> False)"

section \<open>Metadata, parameters and collaborators\<close>

record model =
  id_model :: string
  project_id :: string
  base_id :: string

record view =
  id_view :: string
  fk_model_id :: "string option"

text \<open>
  The parameter objects of the service methods. Every method takes
  \<^verbatim>\<open>projectId?\<close>, \<^verbatim>\<open>viewId?\<close> and \<^verbatim>\<open>modelId\<close>; \<^verbatim>\<open>getModelAndView\<close> reads only those,
  so it takes any extension of \<open>param\<close>.
\<close>

record param =
  projectId :: "string option"
  viewId :: "string option"
  modelId :: string

record query_param = param +
  query :: "string \<rightharpoonup> string"

record read_param = query_param +
  rowId :: string

record ('r, 'k) body_param = param +
  body :: "'r body"
  cookie :: 'k

text \<open>
  The page metadata of a list response, with the fields the tests compare
  (\<^verbatim>\<open>totalRows\<close>, \<^verbatim>\<open>page\<close>, \<^verbatim>\<open>pageSize\<close>, \<^verbatim>\<open>isFirstPage\<close>, \<^verbatim>\<open>isLastPage\<close>).
\<close>

record pageInfo =
  totalRows :: int
  page :: int
  pageSize :: int
  isFirstPage :: bool
  isLastPage :: bool

record 'r paged =
  list_p :: "'r list"
  pageInfo_p :: pageInfo

record count_response =
  count :: nat

text \<open>
  The base model (\<^verbatim>\<open>Model.getBaseModelSQL(...)\<close>) is a collaborator whose code is not
  part of the service: it is a parameter, one field for each method the service calls,
  over a backing store of type \<open>'s\<close>. A mutation returns its result and the new store.
  \<open>insert_bm\<close> is \<^verbatim>\<open>baseModel.insert(body, null, cookie)\<close> and \<open>count_bm\<close> is
  \<^verbatim>\<open>baseModel.count(countArgs)\<close>; the option bag \<^verbatim>\<open>{ cookie }\<close> of the bulk
  methods is its one field. The arguments of \<open>count_bm\<close> are the query parameters
  (\<open>Inl\<close>) and the parsed filter (\<open>Inr\<close>).
\<close>

record ('r, 'j, 'k, 's) base_model =
  readByPk :: "string \<Rightarrow> bool \<Rightarrow> (string \<rightharpoonup> string) \<Rightarrow> 's \<Rightarrow> error + 'r option"
  insert_bm :: "'r \<Rightarrow> 'k \<Rightarrow> 's \<Rightarrow> error + 'r \<times> 's"
  bulkInsert :: "'r list \<Rightarrow> 'k \<Rightarrow> 's \<Rightarrow> error + 'r list \<times> 's"
  bulkUpdate :: "'r list \<Rightarrow> 'k \<Rightarrow> 's \<Rightarrow> error + 'r list \<times> 's"
  count_bm :: "(string \<rightharpoonup> string + 'j) \<Rightarrow> 's \<Rightarrow> error + nat"

text \<open>
  Everything else the service calls: the metadata lookups \<^verbatim>\<open>Model.get\<close>,
  \<^verbatim>\<open>View.get\<close> and \<^verbatim>\<open>Base.get\<close> (absent is \<open>None\<close>), the connection manager
  \<^verbatim>\<open>NcConnectionMgrv2.get\<close>, \<^verbatim>\<open>Model.getBaseModelSQL\<close>,
  \<^verbatim>\<open>datasService.getDataList\<close> and \<^verbatim>\<open>JSON.parse\<close> on a string (\<open>None\<close> is its
  \<^verbatim>\<open>SyntaxError\<close>).
\<close>

record ('r, 'j, 'k, 's, 'b, 'c) world =
  Model_get :: "string \<Rightarrow> model option"
  View_get :: "string \<Rightarrow> view option"
  Base_get :: "string \<Rightarrow> 'b option"
  NcConnectionMgrv2_get :: "'b option \<Rightarrow> error + 'c"
  Model_getBaseModelSQL ::
    "string \<Rightarrow> string option \<Rightarrow> 'c \<Rightarrow> error + ('r, 'j, 'k, 's) base_model"
  getDataList :: "model \<Rightarrow> view option \<Rightarrow> (string \<rightharpoonup> string) \<Rightarrow> 's \<Rightarrow> error + 'r paged"
  JSON_parse :: "string \<Rightarrow> 'j option"

section \<open>The service\<close>

text \<open>
  \<^verbatim>\<open>getModelAndView\<close>: the model must resolve, then belong to the project when one is
  given, then the view is looked up when \<^verbatim>\<open>param.viewId\<close> is truthy. A view that
  does not resolve and a view of another model raise the same error.
\<close>

definition getModelAndView ::
  "('r, 'j, 'k, 's, 'b, 'c) world \<Rightarrow> 'a param_scheme \<Rightarrow> error + model \<times> view option" where
  "getModelAndView w p =
     (case Model_get w (modelId p) of
        None \<Rightarrow> Inl (NotFound ''Model not found'')
      | Some model \<Rightarrow>
          if truthy (projectId p) \<and> Some (project_id model) \<noteq> projectId p
          then Inl (PlainError ''Model not belong to project'')
          else
            (case viewId p of
               None \<Rightarrow> Inr (model, None)
             | Some vid \<Rightarrow>
                 if vid = [] then Inr (model, None)
                 else
                   (case View_get w vid of
                      None \<Rightarrow> Inl (UnprocessableEntity ''View not belong to model'')
                    | Some view \<Rightarrow>
                        if truthy (fk_model_id view) \<and> fk_model_id view \<noteq> Some (modelId p)
                        then Inl (UnprocessableEntity ''View not belong to model'')
                        else Inr (model, Some view))))"

text \<open>
  The three lines every method but \<^verbatim>\<open>dataList\<close> repeats:
  \<^verbatim>\<open>Base.get(model.base_id)\<close>, then \<^verbatim>\<open>NcConnectionMgrv2.get(base)\<close>, then
  \<^verbatim>\<open>Model.getBaseModelSQL({ id: model.id, viewId: view?.id, dbDriver })\<close>.
\<close>

definition getBaseModel ::
  "('r, 'j, 'k, 's, 'b, 'c) world \<Rightarrow> model \<Rightarrow> view option
     \<Rightarrow> error + ('r, 'j, 'k, 's) base_model" where
  "getBaseModel w model view =
     (case NcConnectionMgrv2_get w (Base_get w (base_id model)) of
        Inl e \<Rightarrow> Inl e
      | Inr dbDriver \<Rightarrow>
          Model_getBaseModelSQL w (id_model model) (map_option id_view view) dbDriver)"

definition dataList ::
  "('r, 'j, 'k, 's, 'b, 'c) world \<Rightarrow> query_param \<Rightarrow> 's \<Rightarrow> error + 'r paged" where
  "dataList w p s =
     (case getModelAndView w p of
        Inl e \<Rightarrow> Inl e
      | Inr (model, view) \<Rightarrow> getDataList w model view (query p) s)"

definition dataRead ::
  "('r, 'j, 'k, 's, 'b, 'c) world \<Rightarrow> read_param \<Rightarrow> 's \<Rightarrow> error + 'r" where
  "dataRead w p s =
     (case getModelAndView w p of
        Inl e \<Rightarrow> Inl e
      | Inr (model, view) \<Rightarrow>
          (case getBaseModel w model view of
             Inl e \<Rightarrow> Inl e
           | Inr baseModel \<Rightarrow>
               (case readByPk baseModel (rowId p) False (query p) s of
                  Inl e \<Rightarrow> Inl e
                | Inr None \<Rightarrow> Inl (NotFound ''Row not found'')
                | Inr (Some row) \<Rightarrow> Inr row)))"

definition dataInsert ::
  "('r, 'j, 'k, 's, 'b, 'c) world \<Rightarrow> ('r, 'k) body_param \<Rightarrow> 's
     \<Rightarrow> error + 'r response \<times> 's" where
  "dataInsert w p s =
     (case getModelAndView w p of
        Inl e \<Rightarrow> Inl e
      | Inr (model, view) \<Rightarrow>
          (case getBaseModel w model view of
             Inl e \<Rightarrow> Inl e
           | Inr baseModel \<Rightarrow>
               (case body p of
                  Arr datas \<Rightarrow>
                    (case bulkInsert baseModel datas (cookie p) s of
                       Inl e \<Rightarrow> Inl e
                     | Inr (res, s') \<Rightarrow> Inr (Many res, s'))
                | Obj data \<Rightarrow>
                    (case insert_bm baseModel data (cookie p) s of
                       Inl e \<Rightarrow> Inl e
                     | Inr (res, s') \<Rightarrow> Inr (Single res, s')))))"

definition dataUpdate ::
  "('r, 'j, 'k, 's, 'b, 'c) world \<Rightarrow> ('r, 'k) body_param \<Rightarrow> 's
     \<Rightarrow> error + 'r response \<times> 's" where
  "dataUpdate w p s =
     (case getModelAndView w p of
        Inl e \<Rightarrow> Inl e
      | Inr (model, view) \<Rightarrow>
          (case getBaseModel w model view of
             Inl e \<Rightarrow> Inl e
           | Inr baseModel \<Rightarrow>
               (case bulkUpdate baseModel (batch (body p)) (cookie p) s of
                  Inl e \<Rightarrow> Inl e
                | Inr (res, s') \<Rightarrow>
                    Inr (if isArray (body p) then Many res else index0 res, s'))))"

text \<open>
  \<^verbatim>\<open>dataDelete\<close> as it is written: its body calls \<^verbatim>\<open>baseModel.bulkUpdate\<close>, the
  same call as \<^verbatim>\<open>dataUpdate\<close>.
\<close>

definition dataDelete ::
  "('r, 'j, 'k, 's, 'b, 'c) world \<Rightarrow> ('r, 'k) body_param \<Rightarrow> 's
     \<Rightarrow> error + 'r response \<times> 's" where
  "dataDelete w p s =
     (case getModelAndView w p of
        Inl e \<Rightarrow> Inl e
      | Inr (model, view) \<Rightarrow>
          (case getBaseModel w model view of
             Inl e \<Rightarrow> Inl e
           | Inr baseModel \<Rightarrow>
               (case bulkUpdate baseModel (batch (body p)) (cookie p) s of
                  Inl e \<Rightarrow> Inl e
                | Inr (res, s') \<Rightarrow>
                    Inr (if isArray (body p) then Many res else index0 res, s'))))"

text \<open>
  \<^verbatim>\<open>JSON.parse(countArgs.filterArrJson)\<close>: an absent key reads as \<^verbatim>\<open>undefined\<close>,
  which \<^verbatim>\<open>JSON.parse\<close> turns into the text \<^verbatim>\<open>undefined\<close> and rejects with a
  \<^verbatim>\<open>SyntaxError\<close>.
\<close>

definition JSON_parse_js :: "(string \<Rightarrow> 'j option) \<Rightarrow> string option \<Rightarrow> 'j option" where
  "JSON_parse_js parse v = (case v of None \<Rightarrow> None | Some text \<Rightarrow> parse text)"

text \<open>
  \<^verbatim>\<open>countArgs\<close>: a copy of the query (\<^verbatim>\<open>{ ...param.query }\<close>), with \<^verbatim>\<open>filterArr\<close>
  set when the parse succeeds; the \<^verbatim>\<open>catch\<close> block is empty.
\<close>

definition countArgs ::
  "('r, 'j, 'k, 's, 'b, 'c) world \<Rightarrow> (string \<rightharpoonup> string) \<Rightarrow> (string \<rightharpoonup> string + 'j)" where
  "countArgs w q =
     (case JSON_parse_js (JSON_parse w) (q ''filterArrJson'') of
        None \<Rightarrow> (\<lambda>k. map_option Inl (q k))
      | Some filterArr \<Rightarrow> (\<lambda>k. map_option Inl (q k))(''filterArr'' \<mapsto> Inr filterArr))"

definition dataCount ::
  "('r, 'j, 'k, 's, 'b, 'c) world \<Rightarrow> query_param \<Rightarrow> 's \<Rightarrow> error + count_response" where
  "dataCount w p s =
     (case getModelAndView w p of
        Inl e \<Rightarrow> Inl e
      | Inr (model, view) \<Rightarrow>
          (case getBaseModel w model view of
             Inl e \<Rightarrow> Inl e
           | Inr baseModel \<Rightarrow>
               (case count_bm baseModel (countArgs w (query p)) s of
                  Inl e \<Rightarrow> Inl e
                | Inr n \<Rightarrow> Inr \<lparr>count = n\<rparr>)))"

text \<open>
  The reading of a single-object body that the refinement claim gives: the bulk call on
  the one-element batch, then the first element of what it returns. \<open>first_of_bulk\<close>
  takes the first element of the array an array-body request returned.
\<close>

definition bulkUpdate_then_first ::
  "('r, 'j, 'k, 's) base_model \<Rightarrow> 'r \<Rightarrow> 'k \<Rightarrow> 's \<Rightarrow> error + 'r response \<times> 's" where
  "bulkUpdate_then_first bm data k s =
     (case bulkUpdate bm [data] k s of
        Inl e \<Rightarrow> Inl e
      | Inr (res, s') \<Rightarrow> Inr (index0 res, s'))"

definition first_of_bulk :: "error + 'r response \<times> 's \<Rightarrow> error + 'r response \<times> 's" where
  "first_of_bulk outcome =
     (case outcome of
        Inl e \<Rightarrow> Inl e
      | Inr (Many res, s') \<Rightarrow> Inr (index0 res, s')
      | Inr (Single r, s') \<Rightarrow> Inr (Single r, s')
      | Inr (Undefined, s') \<Rightarrow> Inr (Undefined, s'))"

section \<open>Pagination\<close>

text \<open>
  Modelled from the spec: the Pagination Calculator (section 4.6) lives behind
  \<^verbatim>\<open>datasService.getDataList\<close>, whose code is not among the sources; only the tests
  of its responses are. The definitions below follow the words of section 4.6.

  A request's \<^verbatim>\<open>offset\<close> or \<^verbatim>\<open>limit\<close> is absent (\<open>None\<close>), not a number, or a
  number. The configuration holds the defaults and the maximum page size.
\<close>

datatype numeric_param = NonNumeric | Numeric int

record config =
  defaultOffset :: int
  defaultLimit :: int
  maxLimit :: int

record window =
  offset :: int
  limit :: int

text \<open>
  Modelled from the spec: "a non-numeric or negative limit/offset is coerced to a
  configured default rather than rejected". An absent parameter takes the default too.
\<close>

definition malformed :: "numeric_param option \<Rightarrow> bool" where
  "malformed v =
     (case v of None \<Rightarrow> False | Some NonNumeric \<Rightarrow> True | Some (Numeric n) \<Rightarrow> n < 0)"

text \<open>
  Modelled from the spec: the value a parameter takes after the coercion, the configured
  default \<open>dflt\<close> for a malformed or absent one.
\<close>

definition coerce :: "int \<Rightarrow> numeric_param option \<Rightarrow> int" where
  "coerce dflt v =
     (case v of
        None \<Rightarrow> dflt
      | Some NonNumeric \<Rightarrow> dflt
      | Some (Numeric n) \<Rightarrow> if n < 0 then dflt else n)"

text \<open>
  Modelled from the spec: "an offset that is syntactically valid but exceeds totalRows
  is a hard validation error (OffsetOutOfRange)".
\<close>

definition offsetOutOfRange :: "numeric_param option \<Rightarrow> int \<Rightarrow> bool" where
  "offsetOutOfRange v tot =
     (case v of
        None \<Rightarrow> False
      | Some NonNumeric \<Rightarrow> False
      | Some (Numeric n) \<Rightarrow> 0 \<le> n \<and> tot < n)"

text \<open>
  Modelled from the spec: the validated window; "limit is clamped to a configured
  maximum page size (silently, no error)".
\<close>

definition paginationWindow ::
  "config \<Rightarrow> numeric_param option \<Rightarrow> numeric_param option \<Rightarrow> int \<Rightarrow> error + window" where
  "paginationWindow cfg off lim tot =
     (if offsetOutOfRange off tot then Inl OffsetOutOfRange
      else Inr \<lparr>offset = coerce (defaultOffset cfg) off,
                limit = min (coerce (defaultLimit cfg) lim) (maxLimit cfg)\<rparr>)"

text \<open>
  Modelled from the spec: "page = floor(offset / pageSize) + 1; isFirstPage = offset == 0;
  isLastPage = offset + pageSize >= totalRows". On integers \<open>div\<close> rounds down; the
  window of the data model has \<open>limit > 0\<close>, and the specification gives no page for a
  limit of zero.
\<close>

definition pageInfoOf :: "window \<Rightarrow> int \<Rightarrow> pageInfo" where
  "pageInfoOf win tot =
     \<lparr>totalRows = tot,
      page = offset win div limit win + 1,
      pageSize = limit win,
      isFirstPage = (offset win = 0),
      isLastPage = (tot \<le> offset win + limit win)\<rparr>"

text \<open>
  Modelled from the spec: the page metadata of a list request, validation first.
\<close>

definition listPageInfo ::
  "config \<Rightarrow> numeric_param option \<Rightarrow> numeric_param option \<Rightarrow> int \<Rightarrow> error + pageInfo" where
  "listPageInfo cfg off lim tot =
     (case paginationWindow cfg off lim tot of
        Inl e \<Rightarrow> Inl e
      | Inr win \<Rightarrow> Inr (pageInfoOf win tot))"

section \<open>Projection under a view\<close>

text \<open>
  Modelled from the spec: the View Rule Overlay (section 4.3) and the Field Projection
  Resolver (section 4.4) live behind \<^verbatim>\<open>datasService.getDataList\<close> as well. A row maps
  column titles to values; a view may carry a hidden-field set; a request may carry a
  field list.
\<close>

type_synonym 'a row = "(string \<times> 'a) list"

text \<open>
  Modelled from the spec: "if a view has a hidden-field set, any field in that set is
  excluded from the effective projection regardless of request fields".
\<close>

definition overlayFields :: "string list option \<Rightarrow> string list option \<Rightarrow> string list option" where
  "overlayFields hidden requested =
     (case hidden of
        None \<Rightarrow> requested
      | Some hs \<Rightarrow> map_option (filter (\<lambda>f. f \<notin> set hs)) requested)"

text \<open>
  Modelled from the spec: "fields not present on the table are dropped (non-fatal). If no
  field list is given, the full non-hidden column set is returned in table-defined order".
\<close>

definition resolveFields ::
  "string list \<Rightarrow> string list option \<Rightarrow> string list option \<Rightarrow> string list" where
  "resolveFields columns hidden effective =
     (case effective of
        Some fs \<Rightarrow> filter (\<lambda>f. f \<in> set columns) fs
      | None \<Rightarrow>
          (case hidden of
             None \<Rightarrow> columns
           | Some hs \<Rightarrow> filter (\<lambda>c. c \<notin> set hs) columns))"

text \<open>
  Modelled from the spec: a returned row holds the fields of the effective projection.
\<close>

definition projectRow :: "string list \<Rightarrow> 'a row \<Rightarrow> 'a row" where
  "projectRow fs r = filter (\<lambda>cell. fst cell \<in> set fs) r"

text \<open>
  Modelled from the spec: the rows of a list response, the overlay (4.3) first, then the
  resolution against the table's columns (4.4), then the projection of every row.
\<close>

definition listRows ::
  "string list \<Rightarrow> string list option \<Rightarrow> string list option \<Rightarrow> 'a row list \<Rightarrow> 'a row list" where
  "listRows columns hidden requested rs =
     map (projectRow (resolveFields columns hidden (overlayFields hidden requested))) rs"

section \<open>An in-memory instance of the collaborators\<close>

text \<open>
  Modelled from the spec: the base model is not among the sources. This instance keeps a
  table as a list of rows with the primary-key column \<^verbatim>\<open>Id\<close> and follows section 4.5:
  every record of a mutation must carry a primary-key value (or the whole batch is
  refused before anything is written), and a mutation returns, per input record, an echo
  of the primary-key value only. An update overwrites the columns the record supplies in
  the row its key identifies. It is used to run the service on concrete requests.
\<close>

type_synonym fx_row = "string row"

definition fx_pk :: "fx_row \<Rightarrow> string option" where
  "fx_pk r = map_of r ''Id''"

definition fx_echo :: "fx_row \<Rightarrow> fx_row" where
  "fx_echo r = (case fx_pk r of None \<Rightarrow> [] | Some k \<Rightarrow> [(''Id'', k)])"

text \<open>
  Modelled from the spec: an update overwrites, in the rows with the record's key, the
  columns the record supplies.
\<close>

definition fx_merge :: "fx_row \<Rightarrow> fx_row \<Rightarrow> fx_row" where
  "fx_merge old new =
     map (\<lambda>cell. (fst cell, case map_of new (fst cell) of None \<Rightarrow> snd cell | Some v \<Rightarrow> v)) old"

definition fx_updateRow :: "fx_row list \<Rightarrow> fx_row \<Rightarrow> fx_row list" where
  "fx_updateRow s d = map (\<lambda>r. if fx_pk r = fx_pk d then fx_merge r d else r) s"

text \<open>
  Modelled from the spec: the mutations. A record without a primary key refuses the
  batch before anything is written; the result is the echo of every record's key, in
  input order.
\<close>

definition fx_bulkUpdate :: "fx_row list \<Rightarrow> unit \<Rightarrow> fx_row list \<Rightarrow> error + fx_row list \<times> fx_row list" where
  "fx_bulkUpdate datas k s =
     (if list_ex (\<lambda>d. fx_pk d = None) datas then Inl MissingPrimaryKey
      else Inr (map fx_echo datas, foldl fx_updateRow s datas))"

definition fx_bulkInsert :: "fx_row list \<Rightarrow> unit \<Rightarrow> fx_row list \<Rightarrow> error + fx_row list \<times> fx_row list" where
  "fx_bulkInsert datas k s =
     (if list_ex (\<lambda>d. fx_pk d = None) datas then Inl MissingPrimaryKey
      else Inr (map fx_echo datas, s @ datas))"

definition fx_insert :: "fx_row \<Rightarrow> unit \<Rightarrow> fx_row list \<Rightarrow> error + fx_row \<times> fx_row list" where
  "fx_insert d k s =
     (if fx_pk d = None then Inl MissingPrimaryKey else Inr (fx_echo d, s @ [d]))"

text \<open>
  Modelled from the spec: a read fetches the row with the given primary key, if any.
\<close>

definition fx_readByPk ::
  "string \<Rightarrow> bool \<Rightarrow> (string \<rightharpoonup> string) \<Rightarrow> fx_row list \<Rightarrow> error + fx_row option" where
  "fx_readByPk rid b q s = Inr (find (\<lambda>r. fx_pk r = Some rid) s)"

text \<open>
  The instance's \<open>JSON_parse\<close> accepts the empty array \<^verbatim>\<open>[]\<close> (no filter) and rejects
  every other text, so its count is the number of rows of the table.
\<close>

definition fx_parse :: "string \<Rightarrow> string list option" where
  "fx_parse text = (if text = ''[]'' then Some [] else None)"

definition fx_count :: "(string \<rightharpoonup> string + string list) \<Rightarrow> fx_row list \<Rightarrow> error + nat" where
  "fx_count args s = Inr (length s)"

definition fx_baseModel :: "(fx_row, string list, unit, fx_row list) base_model" where
  "fx_baseModel =
     \<lparr>readByPk = fx_readByPk, insert_bm = fx_insert, bulkInsert = fx_bulkInsert,
      bulkUpdate = fx_bulkUpdate, count_bm = fx_count\<rparr>"

definition fx_config :: config where
  "fx_config = \<lparr>defaultOffset = 0, defaultLimit = 25, maxLimit = 1000\<rparr>"

text \<open>
  Modelled from the spec: the list of this instance reads no query parameter; it returns
  the first page of the default size with its page metadata.
\<close>

definition fx_getDataList ::
  "model \<Rightarrow> view option \<Rightarrow> (string \<rightharpoonup> string) \<Rightarrow> fx_row list \<Rightarrow> error + fx_row paged" where
  "fx_getDataList m v q s =
     (case listPageInfo fx_config None None (int (length s)) of
        Inl e \<Rightarrow> Inl e
      | Inr info \<Rightarrow> Inr \<lparr>list_p = take (nat (pageSize info)) s, pageInfo_p = info\<rparr>)"

text \<open>
  One table \<^verbatim>\<open>t1\<close> of project \<^verbatim>\<open>p1\<close> on base \<^verbatim>\<open>b1\<close>, a view \<^verbatim>\<open>v1\<close> of that table and
  a view \<^verbatim>\<open>v2\<close> of another table.
\<close>

definition fx_world ::
  "(fx_row, string list, unit, fx_row list, string, string) world" where
  "fx_world =
     \<lparr>Model_get = (\<lambda>i. if i = ''t1''
         then Some \<lparr>id_model = ''t1'', project_id = ''p1'', base_id = ''b1''\<rparr> else None),
      View_get = (\<lambda>i.
         if i = ''v1'' then Some \<lparr>id_view = ''v1'', fk_model_id = Some ''t1''\<rparr>
         else if i = ''v2'' then Some \<lparr>id_view = ''v2'', fk_model_id = Some ''t2''\<rparr>
         else None),
      Base_get = (\<lambda>i. if i = ''b1'' then Some ''b1'' else None),
      NcConnectionMgrv2_get = (\<lambda>b. case b of None \<Rightarrow> Inl ConnectivityFailure | Some c \<Rightarrow> Inr c),
      Model_getBaseModelSQL = (\<lambda>i v c. Inr fx_baseModel),
      getDataList = fx_getDataList,
      JSON_parse = fx_parse\<rparr>"

definition fx_store :: "fx_row list" where
  "fx_store = [[(''Id'', ''1''), (''Name'', ''a'')], [(''Id'', ''2''), (''Name'', ''b'')]]"

section \<open>Facts shared by the proofs\<close>

lemmas fx_defs =
  fx_world_def fx_store_def fx_baseModel_def fx_bulkUpdate_def fx_bulkInsert_def fx_insert_def
  fx_readByPk_def fx_count_def fx_parse_def fx_getDataList_def fx_config_def fx_pk_def
  fx_echo_def fx_merge_def fx_updateRow_def

lemmas service_defs =
  dataList_def dataRead_def dataCount_def dataInsert_def dataUpdate_def dataDelete_def

lemma getModelAndView_no_model:
  "Model_get w (modelId p) = None \<Longrightarrow> getModelAndView w p = Inl (NotFound ''Model not found'')"
  by (simp add: getModelAndView_def)

lemma getModelAndView_view_error:
  assumes "Model_get w (modelId p) = Some m"
    and "\<not> (truthy (projectId p) \<and> Some (project_id m) \<noteq> projectId p)"
    and "viewId p = Some vid" and "vid \<noteq> []"
    and "View_get w vid = None \<or>
         (\<exists>v. View_get w vid = Some v \<and> truthy (fk_model_id v)
              \<and> fk_model_id v \<noteq> Some (modelId p))"
  shows "getModelAndView w p = Inl (UnprocessableEntity ''View not belong to model'')"
  using assms by (auto simp: getModelAndView_def)

lemma getModelAndView_view_fails:
  assumes "viewId p = Some vid" and "vid \<noteq> []"
    and "View_get w vid = None \<or>
         (\<exists>v. View_get w vid = Some v \<and> truthy (fk_model_id v)
              \<and> fk_model_id v \<noteq> Some (modelId p))"
  shows "isl (getModelAndView w p)"
  using assms by (auto simp: getModelAndView_def split: option.splits)

text \<open>No method catches what \<^verbatim>\<open>getModelAndView\<close> raises.\<close>

lemma ops_fail:
  "getModelAndView w lp = Inl e \<Longrightarrow> dataList w lp s = Inl e"
  "getModelAndView w lp = Inl e \<Longrightarrow> dataCount w lp s = Inl e"
  "getModelAndView w rp = Inl e \<Longrightarrow> dataRead w rp s = Inl e"
  "getModelAndView w bp = Inl e \<Longrightarrow> dataInsert w bp s = Inl e"
  "getModelAndView w bp = Inl e \<Longrightarrow> dataUpdate w bp s = Inl e"
  "getModelAndView w bp = Inl e \<Longrightarrow> dataDelete w bp s = Inl e"
  by (simp_all add: service_defs)

lemma isl_ops:
  "isl (getModelAndView w lp) \<Longrightarrow> isl (dataList w lp s)"
  "isl (getModelAndView w lp) \<Longrightarrow> isl (dataCount w lp s)"
  "isl (getModelAndView w rp) \<Longrightarrow> isl (dataRead w rp s)"
  "isl (getModelAndView w bp) \<Longrightarrow> isl (dataInsert w bp s)"
  "isl (getModelAndView w bp) \<Longrightarrow> isl (dataUpdate w bp s)"
  "isl (getModelAndView w bp) \<Longrightarrow> isl (dataDelete w bp s)"
  by (auto simp: service_defs isl_def)

text \<open>
  \<^verbatim>\<open>dataDelete\<close> and \<^verbatim>\<open>dataUpdate\<close> are the same function of the request and the
  store, whatever the collaborators are.
\<close>

lemma dataDelete_eq_dataUpdate: "dataDelete w p s = dataUpdate w p s"
  by (simp add: dataDelete_def dataUpdate_def)

text \<open>The in-memory instance resolves the table \<^verbatim>\<open>t1\<close> and its base model.\<close>

lemma fx_resolves:
  "getModelAndView fx_world (p :: 'z param_scheme) =
     Inr (\<lparr>id_model = ''t1'', project_id = ''p1'', base_id = ''b1''\<rparr>, None)"
  if "projectId p = None" and "viewId p = None" and "modelId p = ''t1''"
  using that by (simp add: getModelAndView_def fx_world_def truthy_def)

lemma fx_getBaseModel:
  "getBaseModel fx_world \<lparr>id_model = ''t1'', project_id = ''p1'', base_id = ''b1''\<rparr> v
     = Inr fx_baseModel"
  by (simp add: getBaseModel_def fx_world_def)

section \<open>Delete\<close>

text \<open>
  C1. The claim: \<^verbatim>\<open>dataDelete\<close> destroys the identified rows (a delete, not an update),
  so that a read of a deleted row's primary key then fails with NotFound. The code does
  not do this: for all collaborators, \<^verbatim>\<open>dataDelete\<close> is \<^verbatim>\<open>dataUpdate\<close>. On the
  request of the test "Delete: single" (body \<^verbatim>\<open>[{ Id: 1 }]\<close>) against a table that
  holds row 1, \<^verbatim>\<open>dataDelete\<close> returns the echo of the key and leaves the store as it
  was, and a read of row 1 from that store returns the row.
\<close>

theorem dataDelete_leaves_the_row:
  "dataDelete w p s = dataUpdate w p s
   \<and> dataDelete fx_world
      \<lparr>projectId = None, viewId = None, modelId = ''t1'', body = Arr [[(''Id'', ''1'')]],
       cookie = ()\<rparr>
      fx_store
     = Inr (Many [[(''Id'', ''1'')]], fx_store)
   \<and> dataRead fx_world
      \<lparr>projectId = None, viewId = None, modelId = ''t1'', query = Map.empty, rowId = ''1''\<rparr>
      fx_store
     = Inr [(''Id'', ''1''), (''Name'', ''a'')]"
proof (intro conjI)
  show "dataDelete w p s = dataUpdate w p s"
    by (rule dataDelete_eq_dataUpdate)
  show "dataDelete fx_world
      \<lparr>projectId = None, viewId = None, modelId = ''t1'', body = Arr [[(''Id'', ''1'')]],
       cookie = ()\<rparr>
      fx_store
     = Inr (Many [[(''Id'', ''1'')]], fx_store)"
    by (simp add: dataDelete_def getModelAndView_def getBaseModel_def truthy_def batch_def
        isArray_def fx_defs)
  show "dataRead fx_world
      \<lparr>projectId = None, viewId = None, modelId = ''t1'', query = Map.empty, rowId = ''1''\<rparr>
      fx_store
     = Inr [(''Id'', ''1''), (''Name'', ''a'')]"
    by (simp add: dataRead_def getModelAndView_def getBaseModel_def truthy_def fx_defs)
qed

section \<open>Views that do not resolve or belong to another table\<close>

text \<open>
  The request of the test "List: invalid ID" with the view \<^verbatim>\<open>123456789\<close>, which does
  not exist: the list fails with the unprocessable-entity error (422 in the test), and
  the error is not NotFound.
\<close>

theorem unresolved_view_counterexample:
  "dataList fx_world
     \<lparr>projectId = None, viewId = Some ''123456789'', modelId = ''t1'', query = Map.empty\<rparr>
     fx_store
     = Inl (UnprocessableEntity ''View not belong to model'')
   \<and> \<not> isNotFound (dataList fx_world
     \<lparr>projectId = None, viewId = Some ''123456789'', modelId = ''t1'', query = Map.empty\<rparr>
     fx_store)"
  by (simp add: dataList_def getModelAndView_def truthy_def fx_world_def)

text \<open>
  C2, as the code has it. A truthy \<^verbatim>\<open>viewId\<close> that resolves to no view makes each of
  the six operations fail, whatever the other parameters are; when the table resolves
  and passes the project check, the error is the unprocessable-entity error
  "View not belong to model" (not NotFound). An absent or empty \<^verbatim>\<open>viewId\<close> is not
  looked up at all.
\<close>

theorem unresolved_view_is_unprocessable:
  assumes "vid \<noteq> []" and "View_get w vid = None"
  shows
  "(isl (dataList w \<lparr>projectId = pid, viewId = Some vid, modelId = mid, query = q\<rparr> s)
    \<and> isl (dataRead w \<lparr>projectId = pid, viewId = Some vid, modelId = mid, query = q, rowId = rid\<rparr> s)
    \<and> isl (dataCount w \<lparr>projectId = pid, viewId = Some vid, modelId = mid, query = q\<rparr> s)
    \<and> isl (dataInsert w \<lparr>projectId = pid, viewId = Some vid, modelId = mid, body = b, cookie = k\<rparr> s)
    \<and> isl (dataUpdate w \<lparr>projectId = pid, viewId = Some vid, modelId = mid, body = b, cookie = k\<rparr> s)
    \<and> isl (dataDelete w \<lparr>projectId = pid, viewId = Some vid, modelId = mid, body = b, cookie = k\<rparr> s))
   \<and> (Model_get w mid = Some m \<and> \<not> (truthy pid \<and> Some (project_id m) \<noteq> pid) \<longrightarrow>
      dataList w \<lparr>projectId = pid, viewId = Some vid, modelId = mid, query = q\<rparr> s
        = Inl (UnprocessableEntity ''View not belong to model'')
    \<and> dataRead w \<lparr>projectId = pid, viewId = Some vid, modelId = mid, query = q, rowId = rid\<rparr> s
        = Inl (UnprocessableEntity ''View not belong to model'')
    \<and> dataCount w \<lparr>projectId = pid, viewId = Some vid, modelId = mid, query = q\<rparr> s
        = Inl (UnprocessableEntity ''View not belong to model'')
    \<and> dataInsert w \<lparr>projectId = pid, viewId = Some vid, modelId = mid, body = b, cookie = k\<rparr> s
        = Inl (UnprocessableEntity ''View not belong to model'')
    \<and> dataUpdate w \<lparr>projectId = pid, viewId = Some vid, modelId = mid, body = b, cookie = k\<rparr> s
        = Inl (UnprocessableEntity ''View not belong to model'')
    \<and> dataDelete w \<lparr>projectId = pid, viewId = Some vid, modelId = mid, body = b, cookie = k\<rparr> s
        = Inl (UnprocessableEntity ''View not belong to model''))"
proof -
  have fails: "isl (getModelAndView w p)" if "viewId p = Some vid" for p :: "'z param_scheme"
    using getModelAndView_view_fails [where w = w and p = p and vid = vid] that assms by simp
  have exact: "getModelAndView w p = Inl (UnprocessableEntity ''View not belong to model'')"
    if "viewId p = Some vid" and "modelId p = mid" and "projectId p = pid"
      and "Model_get w mid = Some m" and "\<not> (truthy pid \<and> Some (project_id m) \<noteq> pid)"
    for p :: "'z param_scheme"
    using getModelAndView_view_error [where w = w and p = p and m = m and vid = vid] that assms
    by simp
  show ?thesis
    by (intro conjI impI isl_ops ops_fail fails exact; simp)
qed

theorem unresolved_view_witness:
  "dataList fx_world
      \<lparr>projectId = None, viewId = Some ''123456789'', modelId = ''t1'', query = Map.empty\<rparr>
      fx_store
        = Inl (UnprocessableEntity ''View not belong to model'')
    \<and> dataRead fx_world
      \<lparr>projectId = None, viewId = Some ''123456789'', modelId = ''t1'', query = Map.empty,
       rowId = ''1''\<rparr> fx_store
        = Inl (UnprocessableEntity ''View not belong to model'')
    \<and> dataCount fx_world
      \<lparr>projectId = None, viewId = Some ''123456789'', modelId = ''t1'', query = Map.empty\<rparr>
      fx_store
        = Inl (UnprocessableEntity ''View not belong to model'')
    \<and> dataInsert fx_world
      \<lparr>projectId = None, viewId = Some ''123456789'', modelId = ''t1'',
       body = Obj [(''Id'', ''3'')], cookie = ()\<rparr> fx_store
        = Inl (UnprocessableEntity ''View not belong to model'')
    \<and> dataUpdate fx_world
      \<lparr>projectId = None, viewId = Some ''123456789'', modelId = ''t1'',
       body = Obj [(''Id'', ''3'')], cookie = ()\<rparr> fx_store
        = Inl (UnprocessableEntity ''View not belong to model'')
    \<and> dataDelete fx_world
      \<lparr>projectId = None, viewId = Some ''123456789'', modelId = ''t1'',
       body = Obj [(''Id'', ''3'')], cookie = ()\<rparr> fx_store
        = Inl (UnprocessableEntity ''View not belong to model'')"
proof -
  let ?m = "\<lparr>id_model = ''t1'', project_id = ''p1'', base_id = ''b1''\<rparr>"
  have h1: "''123456789'' \<noteq> []"
    by simp
  have h2: "View_get fx_world ''123456789'' = None"
    by (simp add: fx_world_def)
  have h3: "Model_get fx_world ''t1'' = Some ?m"
    by (simp add: fx_world_def)
  have h4: "\<not> (truthy None \<and> Some (project_id ?m) \<noteq> None)"
    by (simp add: truthy_def)
  show ?thesis
    using unresolved_view_is_unprocessable
      [where w = fx_world and vid = "''123456789''" and mid = "''t1''" and pid = None
         and m = ?m and q = Map.empty and rid = "''1''" and b = "Obj [(''Id'', ''3'')]"
         and k = "()" and s = fx_store, OF h1 h2]
      h3 h4
    by simp
qed

text \<open>
  C4. A truthy \<^verbatim>\<open>viewId\<close> that resolves to a view whose \<^verbatim>\<open>fk_model_id\<close> is present
  (truthy) and differs from the requested \<^verbatim>\<open>modelId\<close> makes each of the six operations
  fail: no operation goes on with the table's default scope. When the table resolves and
  passes the project check, the error is the unprocessable-entity error
  "View not belong to model".
\<close>

theorem view_of_other_table_is_unprocessable:
  assumes "vid \<noteq> []" and "View_get w vid = Some v"
    and "truthy (fk_model_id v)" and "fk_model_id v \<noteq> Some mid"
  shows
  "(isl (dataList w \<lparr>projectId = pid, viewId = Some vid, modelId = mid, query = q\<rparr> s)
    \<and> isl (dataRead w \<lparr>projectId = pid, viewId = Some vid, modelId = mid, query = q, rowId = rid\<rparr> s)
    \<and> isl (dataCount w \<lparr>projectId = pid, viewId = Some vid, modelId = mid, query = q\<rparr> s)
    \<and> isl (dataInsert w \<lparr>projectId = pid, viewId = Some vid, modelId = mid, body = b, cookie = k\<rparr> s)
    \<and> isl (dataUpdate w \<lparr>projectId = pid, viewId = Some vid, modelId = mid, body = b, cookie = k\<rparr> s)
    \<and> isl (dataDelete w \<lparr>projectId = pid, viewId = Some vid, modelId = mid, body = b, cookie = k\<rparr> s))
   \<and> (Model_get w mid = Some m \<and> \<not> (truthy pid \<and> Some (project_id m) \<noteq> pid) \<longrightarrow>
      dataList w \<lparr>projectId = pid, viewId = Some vid, modelId = mid, query = q\<rparr> s
        = Inl (UnprocessableEntity ''View not belong to model'')
    \<and> dataRead w \<lparr>projectId = pid, viewId = Some vid, modelId = mid, query = q, rowId = rid\<rparr> s
        = Inl (UnprocessableEntity ''View not belong to model'')
    \<and> dataCount w \<lparr>projectId = pid, viewId = Some vid, modelId = mid, query = q\<rparr> s
        = Inl (UnprocessableEntity ''View not belong to model'')
    \<and> dataInsert w \<lparr>projectId = pid, viewId = Some vid, modelId = mid, body = b, cookie = k\<rparr> s
        = Inl (UnprocessableEntity ''View not belong to model'')
    \<and> dataUpdate w \<lparr>projectId = pid, viewId = Some vid, modelId = mid, body = b, cookie = k\<rparr> s
        = Inl (UnprocessableEntity ''View not belong to model'')
    \<and> dataDelete w \<lparr>projectId = pid, viewId = Some vid, modelId = mid, body = b, cookie = k\<rparr> s
        = Inl (UnprocessableEntity ''View not belong to model''))"
proof -
  have fails: "isl (getModelAndView w p)"
    if "viewId p = Some vid" and "modelId p = mid" for p :: "'z param_scheme"
    using getModelAndView_view_fails [where w = w and p = p and vid = vid] that assms by simp
  have exact: "getModelAndView w p = Inl (UnprocessableEntity ''View not belong to model'')"
    if "viewId p = Some vid" and "modelId p = mid" and "projectId p = pid"
      and "Model_get w mid = Some m" and "\<not> (truthy pid \<and> Some (project_id m) \<noteq> pid)"
    for p :: "'z param_scheme"
    using getModelAndView_view_error [where w = w and p = p and m = m and vid = vid] that assms
    by simp
  show ?thesis
    by (intro conjI impI isl_ops ops_fail fails exact; simp)
qed

text \<open>
  The view \<^verbatim>\<open>v2\<close> belongs to the table \<^verbatim>\<open>t2\<close>; the request names the table \<^verbatim>\<open>t1\<close>.
\<close>

theorem view_of_other_table_witness:
  "dataList fx_world
      \<lparr>projectId = Some ''p1'', viewId = Some ''v2'', modelId = ''t1'', query = Map.empty\<rparr>
      fx_store
        = Inl (UnprocessableEntity ''View not belong to model'')
    \<and> dataRead fx_world
      \<lparr>projectId = Some ''p1'', viewId = Some ''v2'', modelId = ''t1'', query = Map.empty,
       rowId = ''1''\<rparr> fx_store
        = Inl (UnprocessableEntity ''View not belong to model'')
    \<and> dataCount fx_world
      \<lparr>projectId = Some ''p1'', viewId = Some ''v2'', modelId = ''t1'', query = Map.empty\<rparr>
      fx_store
        = Inl (UnprocessableEntity ''View not belong to model'')
    \<and> dataInsert fx_world
      \<lparr>projectId = Some ''p1'', viewId = Some ''v2'', modelId = ''t1'',
       body = Arr [[(''Id'', ''3'')]], cookie = ()\<rparr> fx_store
        = Inl (UnprocessableEntity ''View not belong to model'')
    \<and> dataUpdate fx_world
      \<lparr>projectId = Some ''p1'', viewId = Some ''v2'', modelId = ''t1'',
       body = Arr [[(''Id'', ''3'')]], cookie = ()\<rparr> fx_store
        = Inl (UnprocessableEntity ''View not belong to model'')
    \<and> dataDelete fx_world
      \<lparr>projectId = Some ''p1'', viewId = Some ''v2'', modelId = ''t1'',
       body = Arr [[(''Id'', ''3'')]], cookie = ()\<rparr> fx_store
        = Inl (UnprocessableEntity ''View not belong to model'')"
proof -
  let ?m = "\<lparr>id_model = ''t1'', project_id = ''p1'', base_id = ''b1''\<rparr>"
  let ?v = "\<lparr>id_view = ''v2'', fk_model_id = Some ''t2''\<rparr>"
  have h1: "''v2'' \<noteq> []"
    by simp
  have h2: "View_get fx_world ''v2'' = Some ?v"
    by (simp add: fx_world_def)
  have h3: "truthy (fk_model_id ?v)"
    by (simp add: truthy_def)
  have h4: "fk_model_id ?v \<noteq> Some ''t1''"
    by simp
  have h5: "Model_get fx_world ''t1'' = Some ?m"
    by (simp add: fx_world_def)
  have h6: "\<not> (truthy (Some ''p1'') \<and> Some (project_id ?m) \<noteq> Some ''p1'')"
    by simp
  show ?thesis
    using view_of_other_table_is_unprocessable
      [where w = fx_world and vid = "''v2''" and v = ?v and mid = "''t1''"
         and pid = "Some ''p1''" and m = ?m and q = Map.empty and rid = "''1''"
         and b = "Arr [[(''Id'', ''3'')]]" and k = "()" and s = fx_store, OF h1 h2 h3 h4]
      h5 h6
    by simp
qed

section \<open>Identifiers that do not resolve\<close>

text \<open>
  C5. When the table identifier does not resolve, each of the six operations raises
  NotFound ("Model not found"), whatever the other parameters are. When the table and
  the base model resolve and \<^verbatim>\<open>readByPk\<close> finds no row, \<^verbatim>\<open>dataRead\<close> raises NotFound
  ("Row not found"). The error is the operation's result: nothing catches it.
\<close>

theorem unresolved_table_or_row_is_NotFound:
  "(Model_get w mid = None \<longrightarrow>
      dataList w \<lparr>projectId = pid, viewId = vid, modelId = mid, query = q\<rparr> s
        = Inl (NotFound ''Model not found'')
    \<and> dataRead w \<lparr>projectId = pid, viewId = vid, modelId = mid, query = q, rowId = rid\<rparr> s
        = Inl (NotFound ''Model not found'')
    \<and> dataCount w \<lparr>projectId = pid, viewId = vid, modelId = mid, query = q\<rparr> s
        = Inl (NotFound ''Model not found'')
    \<and> dataInsert w \<lparr>projectId = pid, viewId = vid, modelId = mid, body = b, cookie = k\<rparr> s
        = Inl (NotFound ''Model not found'')
    \<and> dataUpdate w \<lparr>projectId = pid, viewId = vid, modelId = mid, body = b, cookie = k\<rparr> s
        = Inl (NotFound ''Model not found'')
    \<and> dataDelete w \<lparr>projectId = pid, viewId = vid, modelId = mid, body = b, cookie = k\<rparr> s
        = Inl (NotFound ''Model not found''))
   \<and> (getModelAndView w rp = Inr (m, v) \<and> getBaseModel w m v = Inr bm
        \<and> readByPk bm (rowId rp) False (query rp) s = Inr None
      \<longrightarrow> dataRead w rp s = Inl (NotFound ''Row not found''))"
proof (intro conjI impI)
  assume none: "Model_get w mid = None"
  show "dataList w \<lparr>projectId = pid, viewId = vid, modelId = mid, query = q\<rparr> s
        = Inl (NotFound ''Model not found'')"
    by (rule ops_fail, rule getModelAndView_no_model) (simp add: none)
  show "dataRead w \<lparr>projectId = pid, viewId = vid, modelId = mid, query = q, rowId = rid\<rparr> s
        = Inl (NotFound ''Model not found'')"
    by (rule ops_fail, rule getModelAndView_no_model) (simp add: none)
  show "dataCount w \<lparr>projectId = pid, viewId = vid, modelId = mid, query = q\<rparr> s
        = Inl (NotFound ''Model not found'')"
    by (rule ops_fail, rule getModelAndView_no_model) (simp add: none)
  show "dataInsert w \<lparr>projectId = pid, viewId = vid, modelId = mid, body = b, cookie = k\<rparr> s
        = Inl (NotFound ''Model not found'')"
    by (rule ops_fail, rule getModelAndView_no_model) (simp add: none)
  show "dataUpdate w \<lparr>projectId = pid, viewId = vid, modelId = mid, body = b, cookie = k\<rparr> s
        = Inl (NotFound ''Model not found'')"
    by (rule ops_fail, rule getModelAndView_no_model) (simp add: none)
  show "dataDelete w \<lparr>projectId = pid, viewId = vid, modelId = mid, body = b, cookie = k\<rparr> s
        = Inl (NotFound ''Model not found'')"
    by (rule ops_fail, rule getModelAndView_no_model) (simp add: none)
next
  assume "getModelAndView w rp = Inr (m, v) \<and> getBaseModel w m v = Inr bm
        \<and> readByPk bm (rowId rp) False (query rp) s = Inr None"
  then show "dataRead w rp s = Inl (NotFound ''Row not found'')"
    by (simp add: dataRead_def)
qed

text \<open>
  The requests of the tests "List: invalid ID" and "Read: invalid ID": the table
  \<^verbatim>\<open>123456789\<close> does not exist, and the table \<^verbatim>\<open>t1\<close> has no row \<^verbatim>\<open>1000\<close>.
\<close>

theorem unresolved_table_or_row_witness:
  "dataList fx_world
      \<lparr>projectId = None, viewId = None, modelId = ''123456789'', query = Map.empty\<rparr> fx_store
        = Inl (NotFound ''Model not found'')
    \<and> dataRead fx_world
      \<lparr>projectId = None, viewId = None, modelId = ''123456789'', query = Map.empty,
       rowId = ''100''\<rparr> fx_store
        = Inl (NotFound ''Model not found'')
    \<and> dataCount fx_world
      \<lparr>projectId = None, viewId = None, modelId = ''123456789'', query = Map.empty\<rparr> fx_store
        = Inl (NotFound ''Model not found'')
    \<and> dataInsert fx_world
      \<lparr>projectId = None, viewId = None, modelId = ''123456789'', body = Obj [(''Id'', ''3'')],
       cookie = ()\<rparr> fx_store
        = Inl (NotFound ''Model not found'')
    \<and> dataUpdate fx_world
      \<lparr>projectId = None, viewId = None, modelId = ''123456789'', body = Obj [(''Id'', ''3'')],
       cookie = ()\<rparr> fx_store
        = Inl (NotFound ''Model not found'')
    \<and> dataDelete fx_world
      \<lparr>projectId = None, viewId = None, modelId = ''123456789'', body = Obj [(''Id'', ''3'')],
       cookie = ()\<rparr> fx_store
        = Inl (NotFound ''Model not found'')
    \<and> dataRead fx_world
      \<lparr>projectId = None, viewId = None, modelId = ''t1'', query = Map.empty,
       rowId = ''1000''\<rparr> fx_store
        = Inl (NotFound ''Row not found'')"
proof -
  let ?rp = "\<lparr>projectId = None, viewId = None, modelId = ''t1'', query = Map.empty,
              rowId = ''1000''\<rparr>"
  let ?m = "\<lparr>id_model = ''t1'', project_id = ''p1'', base_id = ''b1''\<rparr>"
  have h1: "Model_get fx_world ''123456789'' = None"
    by (simp add: fx_world_def)
  have h2: "getModelAndView fx_world ?rp = Inr (?m, None)"
    by (simp add: getModelAndView_def fx_world_def truthy_def)
  have h3: "getBaseModel fx_world ?m None = Inr fx_baseModel"
    by (simp add: getBaseModel_def fx_world_def)
  have h4: "readByPk fx_baseModel (rowId ?rp) False (query ?rp) fx_store = Inr None"
    by (simp add: fx_defs)
  show ?thesis
    using unresolved_table_or_row_is_NotFound
      [where w = fx_world and mid = "''123456789''" and pid = None and vid = None
         and q = Map.empty and rid = "''100''" and b = "Obj [(''Id'', ''3'')]" and k = "()"
         and s = fx_store and rp = ?rp and m = ?m and v = None and bm = fx_baseModel]
      h1 h2 h3 h4
    by simp
qed

section \<open>Single and array bodies\<close>

text \<open>
  C3. The shape of the body is the shape of the result. An insert returns an array for
  an array body and one record for any other body. An update or a delete returns the
  array \<^verbatim>\<open>res\<close> for an array body and \<^verbatim>\<open>res[0]\<close>, never an array, for any other
  body; \<^verbatim>\<open>res[0]\<close> is one record when \<^verbatim>\<open>bulkUpdate\<close> returns one echo per record of
  the batch, which is its contract in section 4.5 of the specification.
\<close>

theorem shape_preserved:
  "(dataInsert w p s = Inr (ri, si) \<longrightarrow>
      isMany ri = isArray (body p) \<and> isSingle ri = (\<not> isArray (body p)))
   \<and> (dataUpdate w p s = Inr (ru, su) \<longrightarrow> isMany ru = isArray (body p))
   \<and> (dataDelete w p s = Inr (rd, sd) \<longrightarrow> isMany rd = isArray (body p))
   \<and> (\<not> isArray (body p) \<and> getModelAndView w p = Inr (m, v) \<and> getBaseModel w m v = Inr bm
        \<and> bulkUpdate bm (batch (body p)) (cookie p) s = Inr (res, s2)
        \<and> length res = length (batch (body p))
      \<longrightarrow> (\<exists>x. dataUpdate w p s = Inr (Single x, s2) \<and> dataDelete w p s = Inr (Single x, s2)))"
proof (intro conjI impI)
  assume "dataInsert w p s = Inr (ri, si)"
  then show "isMany ri = isArray (body p)" and "isSingle ri = (\<not> isArray (body p))"
    by (auto simp: dataInsert_def isMany_def isSingle_def isArray_def
        split: sum.splits body.splits prod.splits)
next
  assume "dataUpdate w p s = Inr (ru, su)"
  then show "isMany ru = isArray (body p)"
    by (auto simp: dataUpdate_def isMany_def index0_def
        split: sum.splits prod.splits if_splits list.splits)
next
  assume "dataDelete w p s = Inr (rd, sd)"
  then show "isMany rd = isArray (body p)"
    by (auto simp: dataDelete_def isMany_def index0_def
        split: sum.splits prod.splits if_splits list.splits)
next
  assume h: "\<not> isArray (body p) \<and> getModelAndView w p = Inr (m, v) \<and> getBaseModel w m v = Inr bm
        \<and> bulkUpdate bm (batch (body p)) (cookie p) s = Inr (res, s2)
        \<and> length res = length (batch (body p))"
  then have "length res = 1"
    by (cases "body p") (simp_all add: batch_def isArray_def)
  then obtain x where res: "res = [x]"
    by (cases res) simp_all
  have "dataUpdate w p s = Inr (Single x, s2)"
    using h res by (simp add: dataUpdate_def index0_def)
  then show "\<exists>x. dataUpdate w p s = Inr (Single x, s2) \<and> dataDelete w p s = Inr (Single x, s2)"
    by (simp add: dataDelete_eq_dataUpdate)
qed

text \<open>
  An update and a delete of the single record 2, inserts of one record and of two, and
  an update of two records.
\<close>

theorem shape_preserved_witness:
  "(\<exists>x. dataUpdate fx_world
        \<lparr>projectId = None, viewId = None, modelId = ''t1'',
         body = Obj [(''Id'', ''2''), (''Name'', ''z'')], cookie = ()\<rparr> fx_store
        = Inr (Single x, [[(''Id'', ''1''), (''Name'', ''a'')], [(''Id'', ''2''), (''Name'', ''z'')]])
      \<and> dataDelete fx_world
        \<lparr>projectId = None, viewId = None, modelId = ''t1'',
         body = Obj [(''Id'', ''2''), (''Name'', ''z'')], cookie = ()\<rparr> fx_store
        = Inr (Single x, [[(''Id'', ''1''), (''Name'', ''a'')], [(''Id'', ''2''), (''Name'', ''z'')]]))
   \<and> \<not> isMany (Single [(''Id'', ''3'')] :: fx_row response)
   \<and> isSingle (Single [(''Id'', ''3'')] :: fx_row response)
   \<and> isMany (Many [[(''Id'', ''3'')], [(''Id'', ''4'')]] :: fx_row response)
   \<and> isMany (Many [[(''Id'', ''1'')], [(''Id'', ''2'')]] :: fx_row response)"
proof -
  let ?m = "\<lparr>id_model = ''t1'', project_id = ''p1'', base_id = ''b1''\<rparr>"
  let ?o = "\<lparr>projectId = None, viewId = None, modelId = ''t1'',
         body = Obj [(''Id'', ''2''), (''Name'', ''z'')], cookie = ()\<rparr>"
  let ?oi = "\<lparr>projectId = None, viewId = None, modelId = ''t1'',
         body = Obj [(''Id'', ''3''), (''Name'', ''z'')], cookie = ()\<rparr>"
  let ?a = "\<lparr>projectId = None, viewId = None, modelId = ''t1'',
         body = Arr [[(''Id'', ''1'')], [(''Id'', ''2'')]], cookie = ()\<rparr>"
  let ?ai = "\<lparr>projectId = None, viewId = None, modelId = ''t1'',
         body = Arr [[(''Id'', ''3'')], [(''Id'', ''4'')]], cookie = ()\<rparr>"
  let ?su = "[[(''Id'', ''1''), (''Name'', ''a'')], [(''Id'', ''2''), (''Name'', ''z'')]]"
  have g: "getModelAndView fx_world ?o = Inr (?m, None)"
    by (rule fx_resolves) simp_all
  have b: "getBaseModel fx_world ?m None = Inr fx_baseModel"
    by (rule fx_getBaseModel)
  have o1: "\<not> isArray (body ?o)"
    by (simp add: isArray_def)
  have o2: "bulkUpdate fx_baseModel (batch (body ?o)) (cookie ?o) fx_store
      = Inr ([[(''Id'', ''2'')]], ?su)"
    by (simp add: batch_def fx_defs)
  have o3: "length [[(''Id'', ''2'')] :: fx_row] = length (batch (body ?o))"
    by (simp add: batch_def)
  have i1: "dataInsert fx_world ?oi fx_store
      = Inr (Single [(''Id'', ''3'')], fx_store @ [[(''Id'', ''3''), (''Name'', ''z'')]])"
    by (simp add: dataInsert_def fx_resolves b fx_insert_def fx_pk_def fx_echo_def
        fx_baseModel_def)
  have i2: "dataInsert fx_world ?ai fx_store
      = Inr (Many [[(''Id'', ''3'')], [(''Id'', ''4'')]],
             fx_store @ [[(''Id'', ''3'')], [(''Id'', ''4'')]])"
    by (simp add: dataInsert_def fx_resolves b fx_bulkInsert_def fx_pk_def fx_echo_def
        fx_baseModel_def)
  have a1: "dataUpdate fx_world ?a fx_store
      = Inr (Many [[(''Id'', ''1'')], [(''Id'', ''2'')]], fx_store)"
    by (simp add: dataUpdate_def getModelAndView_def getBaseModel_def truthy_def batch_def
        isArray_def fx_defs)
  have a2: "dataDelete fx_world ?a fx_store
      = Inr (Many [[(''Id'', ''1'')], [(''Id'', ''2'')]], fx_store)"
    by (simp add: dataDelete_def getModelAndView_def getBaseModel_def truthy_def batch_def
        isArray_def fx_defs)
  have s1: "isArray (body ?a)" "isArray (body ?ai)" "\<not> isArray (body ?oi)"
    by (simp_all add: isArray_def)
  note single =
    shape_preserved
      [where w = fx_world and p = ?o and s = fx_store and m = ?m and v = None
         and bm = fx_baseModel and res = "[[(''Id'', ''2'')]]" and ?s2.0 = ?su,
       THEN conjunct2, THEN conjunct2, THEN conjunct2, rule_format]
  note ins_obj =
    shape_preserved
      [where w = fx_world and p = ?oi and s = fx_store and ri = "Single [(''Id'', ''3'')]"
         and si = "fx_store @ [[(''Id'', ''3''), (''Name'', ''z'')]]",
       THEN conjunct1, rule_format, OF i1]
  note ins_arr =
    shape_preserved
      [where w = fx_world and p = ?ai and s = fx_store
         and ri = "Many [[(''Id'', ''3'')], [(''Id'', ''4'')]]"
         and si = "fx_store @ [[(''Id'', ''3'')], [(''Id'', ''4'')]]",
       THEN conjunct1, rule_format, OF i2]
  note upd_arr =
    shape_preserved
      [where w = fx_world and p = ?a and s = fx_store
         and ru = "Many [[(''Id'', ''1'')], [(''Id'', ''2'')]]" and su = fx_store,
       THEN conjunct2, THEN conjunct1, rule_format, OF a1]
  note del_arr =
    shape_preserved
      [where w = fx_world and p = ?a and s = fx_store
         and rd = "Many [[(''Id'', ''1'')], [(''Id'', ''2'')]]" and sd = fx_store,
       THEN conjunct2, THEN conjunct2, THEN conjunct1, rule_format, OF a2]
  have "\<exists>x. dataUpdate fx_world ?o fx_store = Inr (Single x, ?su)
       \<and> dataDelete fx_world ?o fx_store = Inr (Single x, ?su)"
    using single o1 g b o2 o3 by blast
  then show ?thesis
    using ins_obj ins_arr upd_arr del_arr s1 by simp
qed

text \<open>
  C10. For a body that is not an array, \<^verbatim>\<open>dataUpdate\<close> is the bulk call on the
  one-element batch followed by the first element of its result, and so is
  \<^verbatim>\<open>dataDelete\<close>; each is also the first element of what the same operation returns for
  the array body \<^verbatim>\<open>[body]\<close>.
\<close>

theorem single_body_is_bulk_of_singleton:
  "(getModelAndView w p = Inr (m, v) \<and> getBaseModel w m v = Inr bm \<and> body p = Obj data \<longrightarrow>
      dataUpdate w p s = bulkUpdate_then_first bm data (cookie p) s
    \<and> dataDelete w p s = bulkUpdate_then_first bm data (cookie p) s)
   \<and> dataUpdate w (p\<lparr>body := Obj data\<rparr>) s = first_of_bulk (dataUpdate w (p\<lparr>body := Arr [data]\<rparr>) s)
   \<and> dataDelete w (p\<lparr>body := Obj data\<rparr>) s = first_of_bulk (dataDelete w (p\<lparr>body := Arr [data]\<rparr>) s)"
proof (intro conjI impI)
  assume h: "getModelAndView w p = Inr (m, v) \<and> getBaseModel w m v = Inr bm \<and> body p = Obj data"
  then show "dataUpdate w p s = bulkUpdate_then_first bm data (cookie p) s"
    by (simp add: dataUpdate_def bulkUpdate_then_first_def batch_def isArray_def
        split: sum.splits prod.splits)
  with h show "dataDelete w p s = bulkUpdate_then_first bm data (cookie p) s"
    by (simp add: dataDelete_eq_dataUpdate)
next
  have gmv: "getModelAndView w (p\<lparr>body := Obj data\<rparr>) = getModelAndView w (p\<lparr>body := Arr [data]\<rparr>)"
    by (simp add: getModelAndView_def cong: option.case_cong if_cong)
  show upd: "dataUpdate w (p\<lparr>body := Obj data\<rparr>) s
      = first_of_bulk (dataUpdate w (p\<lparr>body := Arr [data]\<rparr>) s)"
    by (simp add: dataUpdate_def first_of_bulk_def gmv batch_def isArray_def
        split: sum.splits prod.splits)
  show "dataDelete w (p\<lparr>body := Obj data\<rparr>) s
      = first_of_bulk (dataDelete w (p\<lparr>body := Arr [data]\<rparr>) s)"
    using upd by (simp add: dataDelete_eq_dataUpdate)
qed

theorem single_body_witness:
  "dataUpdate fx_world
      \<lparr>projectId = None, viewId = None, modelId = ''t1'',
       body = Obj [(''Id'', ''2''), (''Name'', ''z'')], cookie = ()\<rparr> fx_store
     = bulkUpdate_then_first fx_baseModel [(''Id'', ''2''), (''Name'', ''z'')] () fx_store
   \<and> dataDelete fx_world
      \<lparr>projectId = None, viewId = None, modelId = ''t1'',
       body = Obj [(''Id'', ''2''), (''Name'', ''z'')], cookie = ()\<rparr> fx_store
     = bulkUpdate_then_first fx_baseModel [(''Id'', ''2''), (''Name'', ''z'')] () fx_store
   \<and> bulkUpdate_then_first fx_baseModel [(''Id'', ''2''), (''Name'', ''z'')] () fx_store
     = Inr (Single [(''Id'', ''2'')],
            [[(''Id'', ''1''), (''Name'', ''a'')], [(''Id'', ''2''), (''Name'', ''z'')]])"
proof -
  let ?m = "\<lparr>id_model = ''t1'', project_id = ''p1'', base_id = ''b1''\<rparr>"
  let ?o = "\<lparr>projectId = None, viewId = None, modelId = ''t1'',
         body = Obj [(''Id'', ''2''), (''Name'', ''z'')], cookie = ()\<rparr>"
  have g: "getModelAndView fx_world ?o = Inr (?m, None)"
    by (rule fx_resolves) simp_all
  have b: "getBaseModel fx_world ?m None = Inr fx_baseModel"
    by (rule fx_getBaseModel)
  have o: "body ?o = Obj [(''Id'', ''2''), (''Name'', ''z'')]"
    by simp
  have ev: "bulkUpdate_then_first fx_baseModel [(''Id'', ''2''), (''Name'', ''z'')] () fx_store
     = Inr (Single [(''Id'', ''2'')],
            [[(''Id'', ''1''), (''Name'', ''a'')], [(''Id'', ''2''), (''Name'', ''z'')]])"
    by (simp add: bulkUpdate_then_first_def index0_def fx_defs)
  show ?thesis
    using single_body_is_bulk_of_singleton
      [where w = fx_world and p = ?o and m = ?m and v = None and bm = fx_baseModel
         and data = "[(''Id'', ''2''), (''Name'', ''z'')]" and s = fx_store] g b o ev
    by simp
qed

section \<open>Count\<close>

text \<open>
  C9. Once the table and the base model resolve, \<^verbatim>\<open>dataCount\<close> returns
  \<^verbatim>\<open>{ count: n }\<close> for the \<open>n\<close> that \<^verbatim>\<open>baseModel.count\<close> returns, and raises only
  what \<^verbatim>\<open>baseModel.count\<close> raises. When \<^verbatim>\<open>filterArrJson\<close> is absent or is not valid
  JSON, the arguments of the count are the query parameters as they came, with no
  \<^verbatim>\<open>filterArr\<close> added: the failed parse is not an error.
\<close>

theorem dataCount_lenient_filter:
  assumes "getModelAndView w p = Inr (m, v)" and "getBaseModel w m v = Inr bm"
  shows
  "dataCount w p s =
     (case count_bm bm (countArgs w (query p)) s of
        Inl e \<Rightarrow> Inl e
      | Inr n \<Rightarrow> Inr \<lparr>count = n\<rparr>)
   \<and> (query p ''filterArrJson'' = None
        \<or> (\<exists>t. query p ''filterArrJson'' = Some t \<and> JSON_parse w t = None)
      \<longrightarrow> countArgs w (query p) = (\<lambda>k. map_option Inl (query p k)))"
  using assms by (auto simp: dataCount_def countArgs_def JSON_parse_js_def)

text \<open>
  A \<^verbatim>\<open>filterArrJson\<close> that is not JSON, and a request without one: both count the two
  rows of the table.
\<close>

theorem dataCount_lenient_filter_witness:
  "dataCount fx_world
      \<lparr>projectId = None, viewId = None, modelId = ''t1'',
       query = [''filterArrJson'' \<mapsto> ''[{'']\<rparr> fx_store
     = Inr \<lparr>count = 2\<rparr>
   \<and> countArgs fx_world [''filterArrJson'' \<mapsto> ''[{'']
     = (\<lambda>k. map_option Inl ([''filterArrJson'' \<mapsto> ''[{''] k))
   \<and> dataCount fx_world
      \<lparr>projectId = None, viewId = None, modelId = ''t1'', query = Map.empty\<rparr> fx_store
     = Inr \<lparr>count = 2\<rparr>
   \<and> countArgs fx_world Map.empty = (\<lambda>k. None)"
proof -
  let ?m = "\<lparr>id_model = ''t1'', project_id = ''p1'', base_id = ''b1''\<rparr>"
  let ?bad = "\<lparr>projectId = None, viewId = None, modelId = ''t1'',
       query = [''filterArrJson'' \<mapsto> ''[{'']\<rparr>"
  let ?none = "\<lparr>projectId = None, viewId = None, modelId = ''t1'', query = Map.empty\<rparr>"
  have g1: "getModelAndView fx_world ?bad = Inr (?m, None)"
    by (rule fx_resolves) simp_all
  have g2: "getModelAndView fx_world ?none = Inr (?m, None)"
    by (rule fx_resolves) simp_all
  have b: "getBaseModel fx_world ?m None = Inr fx_baseModel"
    by (rule fx_getBaseModel)
  have bad: "\<exists>t. query ?bad ''filterArrJson'' = Some t \<and> JSON_parse fx_world t = None"
    by (simp add: fx_world_def fx_parse_def)
  have absent: "query ?none ''filterArrJson'' = None"
    by simp
  have n: "count_bm fx_baseModel args fx_store = Inr 2" for args
    by (simp add: fx_baseModel_def fx_count_def fx_store_def)
  show ?thesis
    using dataCount_lenient_filter [OF g1 b, where s = fx_store]
      dataCount_lenient_filter [OF g2 b, where s = fx_store] bad absent n
    by simp
qed

section \<open>Page metadata and validation\<close>

text \<open>
  C6. For a valid window (an offset of at least 0 and at most the total, a limit above
  0 and at most the maximum page size), the page metadata of a list response is
  \<open>page = offset div limit + 1\<close>, \<open>isFirstPage = (offset = 0)\<close> and
  \<open>isLastPage = (offset + limit \<ge> totalRows)\<close>; offset 200 and limit 100 over 400 rows
  give page 3 of size 100, neither first nor last.
\<close>

theorem pageInfo_formula:
  "(0 \<le> off \<and> 0 < lim \<and> lim \<le> maxLimit cfg \<and> off \<le> tot \<longrightarrow>
      listPageInfo cfg (Some (Numeric off)) (Some (Numeric lim)) tot
        = Inr \<lparr>totalRows = tot, page = off div lim + 1, pageSize = lim,
               isFirstPage = (off = 0), isLastPage = (tot \<le> off + lim)\<rparr>)
   \<and> (100 \<le> maxLimit cfg \<longrightarrow>
      listPageInfo cfg (Some (Numeric 200)) (Some (Numeric 100)) 400
        = Inr \<lparr>totalRows = 400, page = 3, pageSize = 100,
               isFirstPage = False, isLastPage = False\<rparr>)"
  by (simp add: listPageInfo_def paginationWindow_def offsetOutOfRange_def coerce_def
      pageInfoOf_def)

theorem pageInfo_formula_witness:
  "listPageInfo fx_config (Some (Numeric 200)) (Some (Numeric 100)) 400
     = Inr \<lparr>totalRows = 400, page = 3, pageSize = 100, isFirstPage = False, isLastPage = False\<rparr>
   \<and> listPageInfo fx_config (Some (Numeric 0)) (Some (Numeric 25)) 400
     = Inr \<lparr>totalRows = 400, page = 1, pageSize = 25, isFirstPage = True, isLastPage = False\<rparr>"
proof -
  have h: "(0::int) \<le> 200 \<and> (0::int) < 100 \<and> 100 \<le> maxLimit fx_config \<and> (200::int) \<le> 400"
    by (simp add: fx_config_def)
  have h': "(0::int) \<le> 0 \<and> (0::int) < 25 \<and> 25 \<le> maxLimit fx_config \<and> (0::int) \<le> 400"
    by (simp add: fx_config_def)
  show ?thesis
    using pageInfo_formula [where cfg = fx_config and off = 200 and lim = 100 and tot = 400]
      pageInfo_formula [where cfg = fx_config and off = 0 and lim = 25 and tot = 400] h h'
    by simp
qed

text \<open>
  C7. A limit or an offset that is not a number or is negative takes the configured
  default and does not make the request fail; an offset that is a number of at least 0
  and exceeds the total fails with OffsetOutOfRange, and nothing else makes the
  validation fail.
\<close>

theorem lenient_window_strict_range:
  "(malformed off \<longrightarrow>
      paginationWindow cfg off lim tot
        = Inr \<lparr>offset = defaultOffset cfg,
               limit = min (coerce (defaultLimit cfg) lim) (maxLimit cfg)\<rparr>
      \<and> \<not> isl (listPageInfo cfg off lim tot))
   \<and> (malformed lim \<and> \<not> offsetOutOfRange off tot \<longrightarrow>
      paginationWindow cfg off lim tot
        = Inr \<lparr>offset = coerce (defaultOffset cfg) off,
               limit = min (defaultLimit cfg) (maxLimit cfg)\<rparr>
      \<and> \<not> isl (listPageInfo cfg off lim tot))
   \<and> (0 \<le> n \<and> tot < n \<longrightarrow>
      paginationWindow cfg (Some (Numeric n)) lim tot = Inl OffsetOutOfRange
      \<and> listPageInfo cfg (Some (Numeric n)) lim tot = Inl OffsetOutOfRange)
   \<and> (listPageInfo cfg off lim tot = Inl e \<longrightarrow>
      e = OffsetOutOfRange \<and> (\<exists>k. off = Some (Numeric k) \<and> 0 \<le> k \<and> tot < k))"
  by (auto simp: listPageInfo_def paginationWindow_def offsetOutOfRange_def coerce_def
      malformed_def split: option.splits numeric_param.splits if_splits)

text \<open>
  The requests of the test "List: invalid limit & offset" over 400 rows.
\<close>

theorem lenient_window_witness:
  "paginationWindow fx_config None (Some (Numeric (- 100))) 400 = Inr \<lparr>offset = 0, limit = 25\<rparr>
   \<and> paginationWindow fx_config None (Some NonNumeric) 400 = Inr \<lparr>offset = 0, limit = 25\<rparr>
   \<and> paginationWindow fx_config (Some (Numeric (- 100))) None 400 = Inr \<lparr>offset = 0, limit = 25\<rparr>
   \<and> paginationWindow fx_config (Some NonNumeric) None 400 = Inr \<lparr>offset = 0, limit = 25\<rparr>
   \<and> listPageInfo fx_config (Some (Numeric 10000)) None 400 = Inl OffsetOutOfRange"
proof -
  have m1: "malformed (Some (Numeric (- 100)))" and m2: "malformed (Some NonNumeric)"
    by (simp_all add: malformed_def)
  have r: "\<not> offsetOutOfRange None 400"
    by (simp add: offsetOutOfRange_def)
  have big: "(0::int) \<le> 10000 \<and> (400::int) < 10000"
    by simp
  have c: "coerce (defaultLimit fx_config) None = 25" "coerce (defaultOffset fx_config) None = 0"
    "defaultOffset fx_config = 0" "min (defaultLimit fx_config) (maxLimit fx_config) = 25"
    "maxLimit fx_config = 1000"
    by (simp_all add: coerce_def fx_config_def)
  show ?thesis
    using lenient_window_strict_range
        [where cfg = fx_config and off = None and lim = "Some (Numeric (- 100))" and tot = 400
           and n = 10000 and e = OffsetOutOfRange]
      lenient_window_strict_range
        [where cfg = fx_config and off = None and lim = "Some NonNumeric" and tot = 400
           and n = 10000 and e = OffsetOutOfRange]
      lenient_window_strict_range
        [where cfg = fx_config and off = "Some (Numeric (- 100))" and lim = None and tot = 400
           and n = 10000 and e = OffsetOutOfRange]
      lenient_window_strict_range
        [where cfg = fx_config and off = "Some NonNumeric" and lim = None and tot = 400
           and n = 10000 and e = OffsetOutOfRange]
      m1 m2 r big c
    by simp
qed

section \<open>Hidden fields\<close>

text \<open>
  C8. Under a view with a hidden-field set, no returned row has a field of that set,
  whatever the request's field list is; a request's field list only narrows what is
  returned.
\<close>

theorem hidden_fields_never_returned:
  assumes "r \<in> set (listRows columns (Some hs) requested rs)"
  shows "(h \<in> set hs \<longrightarrow> h \<notin> fst ` set r)
       \<and> (requested = Some fs \<longrightarrow> fst ` set r \<subseteq> set fs)"
  using assms
  by (auto simp: listRows_def projectRow_def resolveFields_def overlayFields_def
      split: option.splits)

text \<open>
  The request of the test "List: view ID + fields": the view hides \<^verbatim>\<open>MultiLineText\<close>
  and \<^verbatim>\<open>Email\<close>, the request asks for both and for two more.
\<close>

theorem hidden_fields_witness:
  "listRows [''Phone'', ''SingleLineText'', ''MultiLineText'', ''Email'']
      (Some [''MultiLineText'', ''Email''])
      (Some [''Phone'', ''MultiLineText'', ''SingleLineText'', ''Email''])
      [[(''Phone'', ''1''), (''SingleLineText'', ''a''), (''MultiLineText'', ''b''),
        (''Email'', ''c'')]]
     = [[(''Phone'', ''1''), (''SingleLineText'', ''a'')]]
   \<and> ''Email'' \<notin> fst ` set [(''Phone'', ''1''), (''SingleLineText'', ''a'')]
   \<and> fst ` set [(''Phone'', ''1''), (''SingleLineText'', ''a'')]
       \<subseteq> set [''Phone'', ''MultiLineText'', ''SingleLineText'', ''Email'']"
proof -
  let ?cols = "[''Phone'', ''SingleLineText'', ''MultiLineText'', ''Email'']"
  let ?hs = "[''MultiLineText'', ''Email'']"
  let ?req = "[''Phone'', ''MultiLineText'', ''SingleLineText'', ''Email'']"
  let ?rs = "[[(''Phone'', ''1''), (''SingleLineText'', ''a''), (''MultiLineText'', ''b''),
        (''Email'', ''c'')]]"
  let ?r = "[(''Phone'', ''1''), (''SingleLineText'', ''a'')]"
  have ev: "listRows ?cols (Some ?hs) (Some ?req) ?rs = [?r]"
    by (simp add: listRows_def projectRow_def resolveFields_def overlayFields_def)
  then have mem: "?r \<in> set (listRows ?cols (Some ?hs) (Some ?req) ?rs)"
    by simp
  have hid: "''Email'' \<in> set ?hs"
    by simp
  show ?thesis
    using hidden_fields_never_returned [OF mem, where h = "''Email''" and fs = ?req] hid ev
    by simp
qed

end
